theory Spec2Isabelle
  imports Main "HOL-Library.Sublist"
begin

section \<open>The reaction-to-pin pipeline of \<^verbatim>\<open>pinbot/callbacks.py\<close>\<close>

text \<open>
  The theory embeds the class \<^verbatim>\<open>Callbacks\<close>: its two fields of mutable state
  (\<^verbatim>\<open>synced\<close>, \<^verbatim>\<open>pinned\<close>), its configuration, and its handlers
  \<^verbatim>\<open>invite\<close>, \<^verbatim>\<open>_reaction\<close>, \<^verbatim>\<open>decryption_failure\<close>, \<^verbatim>\<open>unknown\<close> and
  \<^verbatim>\<open>sync\<close>. A handler is a function from the state before the call to a run: the
  statement at which the call ended, the state after it, and the calls it made on the
  Matrix client, in order. The client (\<^verbatim>\<open>nio.AsyncClient\<close>) and \<^verbatim>\<open>make_pill\<close>
  (\<^verbatim>\<open>pinbot.chat_functions\<close>) are not part of the file; they are parameters of the
  model. Calls of the \<^verbatim>\<open>logging\<close> module are not recorded as effects; the attribute
  reads inside their arguments are.
\<close>

subsection \<open>Python strings and JSON values\<close>

text \<open>
  A Python \<^verbatim>\<open>str\<close> is a sequence of code points, so it is a list of naturals:
  \<^verbatim>\<open>s[0]\<close> is the first code point, and \<^verbatim>\<open>==\<close> is equality of lists.
  \<open>ascii\<close> embeds a literal written in ASCII.
\<close>

type_synonym pystr = "nat list"

definition ascii :: "string \<Rightarrow> pystr" where
  "ascii s = map of_char s"

text \<open>
  The literal of line 111, the pin glyph, as the file holds it: the four code points
  U+00F0, U+0178, U+201C, U+0152. They are what the UTF-8 bytes \<^verbatim>\<open>F0 9F 93 8C\<close> of
  the pushpin emoji U+1F4CC give when they are read as Windows-1252; the pushpin emoji
  itself is another string. The general theorems below hold for any value of the
  literal; only theorems about the sample deployment evaluate it.
\<close>

definition pin_glyph :: pystr where
  "pin_glyph = [0xF0, 0x178, 0x201C, 0x152]"

text \<open>
  \<^verbatim>\<open>event.source\<close> is the parsed JSON of the event. An object is an association
  list, looked up with \<open>map_of\<close>. Python's \<^verbatim>\<open>None\<close> and JSON's \<^verbatim>\<open>null\<close> are
  the one value \<open>JNull\<close>. Numbers and booleans are left out of the model.
\<close>

datatype json =
    JNull
  | JStr pystr
  | JList "json list"
  | JDict "(pystr \<times> json) list"

type_synonym dict = "(pystr \<times> json) list"

datatype py_error = AttributeError | IndexError | TypeError

text \<open>
  \<^verbatim>\<open>x.get(key, default)\<close>: only a dict has the method; on \<^verbatim>\<open>None\<close>, a
  \<^verbatim>\<open>str\<close> or a \<^verbatim>\<open>list\<close> the attribute lookup raises \<^verbatim>\<open>AttributeError\<close>.
\<close>

fun py_get :: "json \<Rightarrow> pystr \<Rightarrow> json \<Rightarrow> py_error + json" where
  "py_get (JDict d) key dflt = Inr (case map_of d key of None \<Rightarrow> dflt | Some v \<Rightarrow> v)"
| "py_get _ key dflt = Inl AttributeError"

text \<open>Truth value of an object in a condition (\<^verbatim>\<open>if reacted_to and ...\<close>).\<close>

fun truthy :: "json \<Rightarrow> bool" where
  "truthy JNull = False"
| "truthy (JStr s) = (s \<noteq> [])"
| "truthy (JList xs) = (xs \<noteq> [])"
| "truthy (JDict d) = (d \<noteq> [])"

text \<open>Lists and dicts cannot be members of a \<^verbatim>\<open>set\<close>: \<^verbatim>\<open>in\<close> and \<^verbatim>\<open>add\<close> raise \<^verbatim>\<open>TypeError\<close>.\<close>

fun unhashable :: "json \<Rightarrow> bool" where
  "unhashable (JList xs) = True"
| "unhashable (JDict d) = True"
| "unhashable _ = False"

text \<open>What an f-string writes for a hashable value: the string itself, or \<^verbatim>\<open>None\<close>.\<close>

fun py_format :: "json \<Rightarrow> pystr" where
  "py_format (JStr s) = s"
| "py_format _ = ascii ''None''"

text \<open>
  \<^verbatim>\<open>sep.join(parts)\<close>, and the parts a \<^verbatim>\<open>str\<close> yields when it is iterated: its
  characters, each as a string of length one.
\<close>

fun py_join :: "pystr \<Rightarrow> pystr list \<Rightarrow> pystr" where
  "py_join sep [] = []"
| "py_join sep [x] = x"
| "py_join sep (x # y # ys) = x @ sep @ py_join sep (y # ys)"

definition py_iter :: "pystr \<Rightarrow> pystr list" where
  "py_iter s = map (\<lambda>c. [c]) s"

subsection \<open>Events, the client and the state\<close>

text \<open>
  The \<^verbatim>\<open>UnknownEvent\<close> handed to \<^verbatim>\<open>unknown\<close> and \<^verbatim>\<open>_reaction\<close>, with its
  attributes \<^verbatim>\<open>type\<close>, \<^verbatim>\<open>sender\<close> (the user who reacted) and \<^verbatim>\<open>source\<close>.
\<close>

record unknown_event =
  etype :: pystr
  esender :: pystr
  source :: dict

text \<open>
  The event \<^verbatim>\<open>room_get_event\<close> returns. The handler reads three attributes of it.
  \<^verbatim>\<open>sender\<close> every event has; \<^verbatim>\<open>body\<close> only a message has (\<open>None\<close>: the
  attribute is missing); \<^verbatim>\<open>formatted_body\<close> may be missing, \<^verbatim>\<open>None\<close> or a string.
\<close>

datatype attr = NoAttr | AttrNone | AttrStr pystr

datatype event =
    MegolmEvent
  | Event pystr "pystr option" attr

datatype get_event_response = RoomGetEventError | RoomGetEventResponse event

datatype join_response = JoinError pystr | JoinResponse

datatype send_response = RoomSendError | RoomSendResponse

record content =
  msgtype :: pystr
  body :: pystr
  format :: pystr
  formatted_body :: pystr

text \<open>
  The collaborators. A call on the client returns a response or an error response; it
  does not raise. \<open>client_join room n\<close> is what the \<open>n\<close>-th call of
  \<^verbatim>\<open>client.join(room)\<close> inside one handler returns (\<open>n\<close> counts from 0, as
  \<^verbatim>\<open>attempt\<close> does). \<open>client_room_send\<close> is what \<^verbatim>\<open>client.room_send\<close>
  returns; the handler drops that value. \<open>make_pill\<close> is the function of that name
  from \<^verbatim>\<open>pinbot.chat_functions\<close>.
\<close>

record env =
  client_join :: "pystr \<Rightarrow> nat \<Rightarrow> join_response"
  client_room_get_event :: "pystr \<Rightarrow> json \<Rightarrow> get_event_response"
  client_room_send :: "pystr \<Rightarrow> pystr \<Rightarrow> content \<Rightarrow> send_response"
  make_pill :: "pystr \<Rightarrow> pystr"

datatype action =
    Join pystr
  | Sleep nat
  | RoomGetEvent pystr json
  | RoomSend pystr pystr content

record config =
  pins_room :: pystr
  user_id :: pystr

record callbacks =
  config :: config
  synced :: bool
  pinned :: "json set"

text \<open>
  Where a handler call ended: one constructor for each \<^verbatim>\<open>return\<close> of
  \<^verbatim>\<open>_reaction\<close> in source order, \<open>Pinned\<close> for its last line, \<open>Unhandled\<close> for
  the debug line that ends \<^verbatim>\<open>unknown\<close>, \<open>Joined\<close> and \<open>GaveUp\<close> for the
  \<^verbatim>\<open>break\<close> and the \<^verbatim>\<open>else\<close> of the loop of \<^verbatim>\<open>invite\<close>, \<open>Done\<close> for a
  handler with a single path, and \<open>Raised\<close> for an exception that leaves the handler.
\<close>

datatype exit_point =
    NotSynced
  | InPinsRoom
  | GetEventFailed
  | Undecryptable
  | OwnEvent
  | NotPinEmoji
  | AlreadyPinned
  | Pinned
  | Unhandled
  | Joined
  | GaveUp
  | Done
  | Raised py_error

record run =
  exit :: exit_point
  final :: callbacks
  effects :: "action list"

definition ret :: "exit_point \<Rightarrow> callbacks \<Rightarrow> action list \<Rightarrow> run" where
  "ret x s es = \<lparr>exit = x, final = s, effects = es\<rparr>"

subsection \<open>\<^verbatim>\<open>invite\<close> (lines 40 to 66)\<close>

text \<open>
  \<^verbatim>\<open>for attempt in range(3)\<close>: the list holds the attempts still to run. A
  \<^verbatim>\<open>JoinError\<close> is followed by \<^verbatim>\<open>asyncio.sleep(1)\<close> and the next attempt; any
  other result leaves the loop. The Boolean tells whether the loop was left by
  \<^verbatim>\<open>break\<close>.
\<close>

fun invite_loop :: "env \<Rightarrow> pystr \<Rightarrow> nat list \<Rightarrow> bool \<times> action list" where
  "invite_loop e room_id [] = (False, [])"
| "invite_loop e room_id (attempt # rest) =
     (case client_join e room_id attempt of
        JoinError message \<Rightarrow>
          (let (joined, es) = invite_loop e room_id rest
           in (joined, [Join room_id, Sleep 1] @ es))
      | JoinResponse \<Rightarrow> (True, [Join room_id]))"

definition invite :: "env \<Rightarrow> callbacks \<Rightarrow> pystr \<Rightarrow> run" where
  "invite e self room_id =
     (let (joined, es) = invite_loop e room_id [0..<3]
      in ret (if joined then Joined else GaveUp) self es)"

subsection \<open>\<^verbatim>\<open>_reaction\<close> (lines 68 to 160)\<close>

definition relation_dict :: "dict \<Rightarrow> py_error + json" where
  "relation_dict src =
     (case py_get (JDict src) (ascii ''content'') (JDict []) of
        Inl err \<Rightarrow> Inl err
      | Inr c \<Rightarrow> py_get c (ascii ''m.relates_to'') (JDict []))"

definition reaction_emoji :: "dict \<Rightarrow> py_error + json" where
  "reaction_emoji src =
     (case relation_dict src of
        Inl err \<Rightarrow> Inl err
      | Inr r \<Rightarrow> py_get r (ascii ''key'') JNull)"

text \<open>Line 124: \<^verbatim>\<open>reacted_to_event.body.join('\n> ')\<close>.\<close>

definition fallback_body :: "pystr \<Rightarrow> pystr" where
  "fallback_body b = py_join b (py_iter (ascii ''\<newline>> ''))"

text \<open>Lines 125 to 131; \<open>c\<close> is \<^verbatim>\<open>reacted_to_event.sender[0]\<close>.\<close>

definition plain_body :: "nat \<Rightarrow> pystr \<Rightarrow> pystr" where
  "plain_body c b =
     ascii ''\<newline>> '' @ [c] @ ascii '' '' @ fallback_body b @ ascii ''\<newline>\<newline>Pinned\<newline>''"

text \<open>Lines 136 to 148.\<close>

definition formatted :: "pystr \<Rightarrow> pystr \<Rightarrow> pystr \<Rightarrow> pystr \<Rightarrow> pystr" where
  \<open>formatted room_slug event_slug pinned_sender_pill quote_body =
     ascii ''\<newline><mx-reply>\<newline>  <blockquote>\<newline>    <a href="https://matrix.to/#/''
     @ room_slug @ ascii ''/'' @ event_slug @ ascii ''">Pinned</a>\<newline>    ''
     @ pinned_sender_pill
     @ ascii ''\<newline>    <br />\<newline>    <!-- This is where the related event's HTML would be. -->\<newline>    ''
     @ quote_body
     @ ascii ''\<newline>  </blockquote>\<newline></mx-reply>\<newline>''\<close>

text \<open>
  Lines 120 to 160, entered once every check has passed: the attribute reads in source
  order (\<^verbatim>\<open>body\<close> on line 123, \<^verbatim>\<open>sender[0]\<close> on line 127, \<^verbatim>\<open>formatted_body\<close>
  on line 135), the send, and the insertion into \<^verbatim>\<open>self.pinned\<close>. The value
  \<^verbatim>\<open>room_send\<close> returns is not looked at.
\<close>

definition pin :: "env \<Rightarrow> callbacks \<Rightarrow> pystr \<Rightarrow> json \<Rightarrow> pystr \<Rightarrow> pystr option \<Rightarrow> attr
    \<Rightarrow> action list \<Rightarrow> run" where
  "pin e self room_id reacted_to_id sender b fb calls =
     (case b of
        None \<Rightarrow> ret (Raised AttributeError) self calls
      | Some bd \<Rightarrow>
          (case sender of
             [] \<Rightarrow> ret (Raised IndexError) self calls
           | c # cs \<Rightarrow>
               (case fb of
                  NoAttr \<Rightarrow> ret (Raised AttributeError) self calls
                | _ \<Rightarrow>
                    (let quote_body = (case fb of AttrStr f \<Rightarrow> f | _ \<Rightarrow> bd);
                         msg = \<lparr>msgtype = ascii ''m.text'',
                                body = plain_body c bd,
                                format = ascii ''org.matrix.custom.html'',
                                formatted_body =
                                  formatted room_id (py_format reacted_to_id)
                                    (make_pill e sender) quote_body\<rparr>
                     in ret Pinned
                          (self\<lparr>pinned := insert reacted_to_id (pinned self)\<rparr>)
                          (calls @ [RoomSend (pins_room (config self))
                                     (ascii ''m.room.message'') msg])))))"

text \<open>
  The handler itself, lines 80 to 118, under the name \<open>reaction\<close> (a name cannot
  start with an underscore here). \<^verbatim>\<open>reacted_to_id\<close> is whatever \<^verbatim>\<open>unknown\<close>
  found under \<^verbatim>\<open>event_id\<close>, a string in a well-formed event.
\<close>

definition reaction :: "env \<Rightarrow> callbacks \<Rightarrow> pystr \<Rightarrow> unknown_event \<Rightarrow> json \<Rightarrow> run" where
  "reaction e self room_id ev reacted_to_id =
     (if \<not> synced self then ret NotSynced self []
      else if room_id = pins_room (config self) then ret InPinsRoom self []
      else
        (let calls = [RoomGetEvent room_id reacted_to_id] in
         case client_room_get_event e room_id reacted_to_id of
           RoomGetEventError \<Rightarrow> ret GetEventFailed self calls
         | RoomGetEventResponse reacted_to_event \<Rightarrow>
             (case reacted_to_event of
                MegolmEvent \<Rightarrow> ret Undecryptable self calls
              | Event sender b fb \<Rightarrow>
                  if sender = user_id (config self) then ret OwnEvent self calls
                  else
                    (case reaction_emoji (source ev) of
                       Inl err \<Rightarrow> ret (Raised err) self calls
                     | Inr emoji \<Rightarrow>
                         if emoji \<noteq> JStr pin_glyph then ret NotPinEmoji self calls
                         else if unhashable reacted_to_id then ret (Raised TypeError) self calls
                         else if reacted_to_id \<in> pinned self then ret AlreadyPinned self calls
                         else pin e self room_id reacted_to_id sender b fb calls))))"

subsection \<open>\<^verbatim>\<open>decryption_failure\<close>, \<^verbatim>\<open>unknown\<close> and \<^verbatim>\<open>sync\<close> (lines 162 to 215)\<close>

definition decryption_failure :: "env \<Rightarrow> callbacks \<Rightarrow> pystr \<Rightarrow> run" where
  "decryption_failure e self room_id = ret Done self []"

definition unknown :: "env \<Rightarrow> callbacks \<Rightarrow> pystr \<Rightarrow> unknown_event \<Rightarrow> run" where
  "unknown e self room_id ev =
     (if etype ev = ascii ''m.reaction'' then
        (case relation_dict (source ev) of
           Inl err \<Rightarrow> ret (Raised err) self []
         | Inr rd \<Rightarrow>
             (case py_get rd (ascii ''event_id'') JNull of
                Inl err \<Rightarrow> ret (Raised err) self []
              | Inr reacted_to \<Rightarrow>
                  if \<not> truthy reacted_to then ret Unhandled self []
                  else
                    (case py_get rd (ascii ''rel_type'') JNull of
                       Inl err \<Rightarrow> ret (Raised err) self []
                     | Inr rel_type \<Rightarrow>
                         if rel_type = JStr (ascii ''m.annotation'')
                         then reaction e self room_id ev reacted_to
                         else ret Unhandled self [])))
      else ret Unhandled self [])"

definition sync :: "callbacks \<Rightarrow> run" where
  "sync self = ret Done (self\<lparr>synced := True\<rparr>) []"

text \<open>The state \<^verbatim>\<open>__init__\<close> builds (lines 33 to 38).\<close>

definition init :: "config \<Rightarrow> callbacks" where
  "init cfg = \<lparr>config = cfg, synced = False, pinned = {}\<rparr>"

subsection \<open>Reading a run\<close>

fun is_send :: "action \<Rightarrow> bool" where
  "is_send (RoomSend r t c) = True"
| "is_send _ = False"

fun is_fetch :: "action \<Rightarrow> bool" where
  "is_fetch (RoomGetEvent r i) = True"
| "is_fetch _ = False"

definition sends :: "run \<Rightarrow> action list" where
  "sends r = filter is_send (effects r)"

definition fetches :: "run \<Rightarrow> action list" where
  "fetches r = filter is_fetch (effects r)"

fun content_of :: "action \<Rightarrow> content list" where
  "content_of (RoomSend r t c) = [c]"
| "content_of _ = []"

definition sent :: "run \<Rightarrow> content list" where
  "sent r = concat (map content_of (effects r))"

fun pause :: "action \<Rightarrow> nat" where
  "pause (Sleep n) = n"
| "pause _ = 0"

definition slept :: "run \<Rightarrow> nat" where
  "slept r = sum_list (map pause (effects r))"

fun is_join :: "action \<Rightarrow> bool" where
  "is_join (Join r) = True"
| "is_join _ = False"

definition joins :: "run \<Rightarrow> nat" where
  "joins r = length (filter is_join (effects r))"

text \<open>What the client answered to the sends of a run.\<close>

fun answer :: "env \<Rightarrow> action \<Rightarrow> send_response list" where
  "answer e (RoomSend r t c) = [client_room_send e r t c]"
| "answer e _ = []"

definition answers :: "env \<Rightarrow> run \<Rightarrow> send_response list" where
  "answers e r = concat (map (answer e) (effects r))"

subsection \<open>A sample deployment\<close>

text \<open>
  Concrete values on which the theorems are run: a configuration, a room, reaction
  events as the homeserver delivers them, and clients with fixed answers.
  \<open>sample_pill\<close> stands for \<^verbatim>\<open>make_pill\<close>: a link to the user, labelled with the
  user's identifier.
\<close>

definition cfg0 :: config where
  "cfg0 = \<lparr>pins_room = ascii ''!pins:hs'', user_id = ascii ''@bot:hs''\<rparr>"

definition live :: callbacks where
  "live = (init cfg0)\<lparr>synced := True\<rparr>"

definition room0 :: pystr where
  "room0 = ascii ''!room:hs''"

definition E1 :: json where
  "E1 = JStr (ascii ''$E1'')"

definition relates :: "dict \<Rightarrow> unknown_event" where
  "relates r =
     \<lparr>etype = ascii ''m.reaction'', esender = ascii ''@alice:hs'',
      source = [(ascii ''content'', JDict [(ascii ''m.relates_to'', JDict r)])]\<rparr>"

definition pin_event :: unknown_event where
  "pin_event =
     relates [(ascii ''event_id'', E1),
              (ascii ''rel_type'', JStr (ascii ''m.annotation'')),
              (ascii ''key'', JStr pin_glyph)]"

definition thumb_event :: unknown_event where
  "thumb_event =
     relates [(ascii ''event_id'', E1),
              (ascii ''rel_type'', JStr (ascii ''m.annotation'')),
              (ascii ''key'', JStr [0x1F44D])]"

definition nokey_event :: unknown_event where
  "nokey_event =
     relates [(ascii ''event_id'', E1),
              (ascii ''rel_type'', JStr (ascii ''m.annotation''))]"

definition sample_pill :: "pystr \<Rightarrow> pystr" where
  \<open>sample_pill u = ascii ''<a href="https://matrix.to/#/'' @ u @ ascii ''">'' @ u @ ascii ''</a>''\<close>

definition client :: "(nat \<Rightarrow> join_response) \<Rightarrow> get_event_response \<Rightarrow> send_response \<Rightarrow> env" where
  "client joined fetched sent_back =
     \<lparr>client_join = (\<lambda>r n. joined n),
      client_room_get_event = (\<lambda>r i. fetched),
      client_room_send = (\<lambda>r t c. sent_back),
      make_pill = sample_pill\<rparr>"

definition message :: "pystr \<Rightarrow> get_event_response" where
  "message b = RoomGetEventResponse (Event (ascii ''@bob:hs'') (Some b) AttrNone)"

text \<open>Join fails twice, then succeeds; the target is a message of Bob saying hello.\<close>

definition env0 :: env where
  "env0 = client (\<lambda>n. if n < 2 then JoinError (ascii ''M_UNKNOWN'') else JoinResponse)
            (message (ascii ''hello'')) RoomSendResponse"

text \<open>A homeserver that refuses every join and every send.\<close>

definition env_down :: env where
  "env_down = client (\<lambda>n. JoinError (ascii ''M_FORBIDDEN''))
            (message (ascii ''hello'')) RoomSendError"

text \<open>The same annotation with the pushpin emoji U+1F4CC as its key.\<close>

definition pushpin_event :: unknown_event where
  "pushpin_event =
     relates [(ascii ''event_id'', E1),
              (ascii ''rel_type'', JStr (ascii ''m.annotation'')),
              (ascii ''key'', JStr [0x1F4CC])]"

text \<open>
  Reactions with a field of the wrong type: \<^verbatim>\<open>content\<close> is \<^verbatim>\<open>null\<close>,
  \<^verbatim>\<open>m.relates_to\<close> is \<^verbatim>\<open>null\<close>, \<^verbatim>\<open>m.relates_to\<close> is a string.
\<close>

definition nullcontent_event :: unknown_event where
  "nullcontent_event =
     \<lparr>etype = ascii ''m.reaction'', esender = ascii ''@alice:hs'',
      source = [(ascii ''content'', JNull)]\<rparr>"

definition nullrel_event :: unknown_event where
  "nullrel_event =
     \<lparr>etype = ascii ''m.reaction'', esender = ascii ''@alice:hs'',
      source = [(ascii ''content'', JDict [(ascii ''m.relates_to'', JNull)])]\<rparr>"

definition badtype_event :: unknown_event where
  "badtype_event =
     \<lparr>etype = ascii ''m.reaction'', esender = ascii ''@alice:hs'',
      source = [(ascii ''content'', JDict [(ascii ''m.relates_to'', JStr (ascii ''$E1''))])]\<rparr>"

text \<open>The target is a message of two lines.\<close>

definition env_lines :: env where
  "env_lines = client (\<lambda>n. JoinResponse)
            (message (ascii ''first\<newline>second'')) RoomSendResponse"

text \<open>The target is a message whose plain body is markup, with no formatted body.\<close>

definition env_markup :: env where
  "env_markup = client (\<lambda>n. JoinResponse)
            (message (ascii ''<img src=x onerror=alert(1)>'')) RoomSendResponse"

section \<open>Properties\<close>

subsection \<open>Basic facts\<close>

lemma ret_simps [simp]:
  "exit (ret x s es) = x" "final (ret x s es) = s" "effects (ret x s es) = es"
  by (simp_all add: ret_def)

lemma ret_eq_iff [simp]:
  "ret x s es = ret y t fs \<longleftrightarrow> x = y \<and> s = t \<and> es = fs"
  by (auto simp add: ret_def)

lemma sends_ret [simp]: "sends (ret x s es) = filter is_send es"
  by (simp add: sends_def)

lemmas sample_defs =
  cfg0_def live_def room0_def E1_def relates_def pin_event_def sample_pill_def
  client_def message_def env0_def init_def

lemmas handler_defs =
  unknown_def reaction_def relation_dict_def reaction_emoji_def pin_def ascii_def

text \<open>The last block of \<^verbatim>\<open>_reaction\<close> either raises or sends and records.\<close>

lemma pin_shape:
  "(\<exists>err. pin e s room i sender b fb cs = ret (Raised err) s cs)
   \<or> (\<exists>msg. pin e s room i sender b fb cs
         = ret Pinned (s\<lparr>pinned := insert i (pinned s)\<rparr>)
             (cs @ [RoomSend (pins_room (config s)) (ascii ''m.room.message'') msg]))"
  by (cases b; cases sender; cases fb) (auto simp add: pin_def)

lemma pin_exitD:
  "exit (pin e s room i sender b fb cs) = x \<Longrightarrow> x = Pinned \<or> (\<exists>err. x = Raised err)"
  using pin_shape [of e s room i sender b fb cs] by auto

lemma pin_fetches:
  "filter is_fetch (effects (pin e s room i sender b fb cs)) = filter is_fetch cs"
  using pin_shape [of e s room i sender b fb cs] by auto

lemma pin_ok:
  assumes "sender = c # cs" and "fb \<noteq> NoAttr"
  shows "pin e s room i sender (Some bd) fb calls =
     ret Pinned (s\<lparr>pinned := insert i (pinned s)\<rparr>)
       (calls @ [RoomSend (pins_room (config s)) (ascii ''m.room.message'')
          \<lparr>msgtype = ascii ''m.text'',
           body = plain_body c bd,
           format = ascii ''org.matrix.custom.html'',
           formatted_body = formatted room (py_format i) (make_pill e sender)
              (case fb of AttrStr f \<Rightarrow> f | _ \<Rightarrow> bd)\<rparr>])"
  using assms by (cases fb) (simp_all add: pin_def)

text \<open>
  A call of \<^verbatim>\<open>_reaction\<close> has one of three shapes: it returns before the fetch, it
  returns (or raises) after the fetch with the state untouched, or it fetches, sends
  and records the target.
\<close>

lemma reaction_shape:
  "(\<exists>x. x \<noteq> Pinned \<and> reaction e s room ev i = ret x s [])
   \<or> (\<exists>x. x \<noteq> Pinned \<and> reaction e s room ev i = ret x s [RoomGetEvent room i])
   \<or> (\<exists>msg. reaction e s room ev i
         = ret Pinned (s\<lparr>pinned := insert i (pinned s)\<rparr>)
             [RoomGetEvent room i,
              RoomSend (pins_room (config s)) (ascii ''m.room.message'') msg])"
proof (cases "\<exists>sender b fb.
    reaction e s room ev i = pin e s room i sender b fb [RoomGetEvent room i]")
  case True
  then obtain sender b fb where
    "reaction e s room ev i = pin e s room i sender b fb [RoomGetEvent room i]"
    by blast
  with pin_shape [of e s room i sender b fb "[RoomGetEvent room i]"]
  show ?thesis by auto
next
  case False
  then show ?thesis
    unfolding reaction_def Let_def
    by (auto split: get_event_response.splits event.splits sum.splits if_splits)
qed

lemma reaction_final:
  "final (reaction e s room ev i) = s
   \<or> final (reaction e s room ev i) = s\<lparr>pinned := insert i (pinned s)\<rparr>"
  using reaction_shape [of e s room ev i] by auto

lemma reaction_Pinned_final:
  "exit (reaction e s room ev i) = Pinned \<Longrightarrow>
     final (reaction e s room ev i) = s\<lparr>pinned := insert i (pinned s)\<rparr>"
  using reaction_shape [of e s room ev i] by auto

lemma reaction_sends_length:
  "length (sends (reaction e s room ev i))
     = (if exit (reaction e s room ev i) = Pinned then 1 else 0)"
  using reaction_shape [of e s room ev i] by (auto simp add: sends_def)

lemma unknown_final:
  "final (unknown e s room ev) = s
   \<or> (\<exists>i. final (unknown e s room ev) = s\<lparr>pinned := insert i (pinned s)\<rparr>)"
  using reaction_final [of e s room ev]
  by (auto simp add: unknown_def split: sum.split)

lemma reaction_not_synced:
  "\<not> synced s \<Longrightarrow> reaction e s room ev i = ret NotSynced s []"
  by (simp add: reaction_def)

lemma unknown_not_synced:
  assumes "\<not> synced s"
  shows "final (unknown e s room ev) = s" and "effects (unknown e s room ev) = []"
  using assms by (simp_all add: unknown_def reaction_not_synced split: sum.split)

lemma reaction_live:
  assumes "synced s" and "room \<noteq> pins_room (config s)"
    and "client_room_get_event e room i = RoomGetEventResponse (Event sender b fb)"
    and "sender \<noteq> user_id (config s)"
    and "reaction_emoji (source ev) = Inr (JStr pin_glyph)"
    and "\<not> unhashable i" and "i \<notin> pinned s"
  shows "reaction e s room ev i = pin e s room i sender b fb [RoomGetEvent room i]"
  using assms by (simp add: reaction_def)

lemma reaction_Pinned_iff:
  "exit (reaction e s room ev i) = Pinned \<longleftrightarrow>
     synced s \<and> room \<noteq> pins_room (config s)
     \<and> (\<exists>sender b fb. client_room_get_event e room i
                         = RoomGetEventResponse (Event sender (Some b) fb)
           \<and> sender \<noteq> user_id (config s) \<and> sender \<noteq> [] \<and> fb \<noteq> NoAttr)
     \<and> reaction_emoji (source ev) = Inr (JStr pin_glyph)
     \<and> \<not> unhashable i \<and> i \<notin> pinned s"
  by (auto simp add: reaction_def pin_def Let_def
      split: get_event_response.split event.split sum.split option.split list.split attr.split)

lemma reaction_no_key:
  assumes "reaction_emoji (source ev) = Inr JNull"
  shows "exit (reaction e s room ev i)
      \<in> {NotSynced, InPinsRoom, GetEventFailed, Undecryptable, OwnEvent, NotPinEmoji}"
    and "sends (reaction e s room ev i) = []"
    and "final (reaction e s room ev i) = s"
  using assms
  by (simp_all add: reaction_def sends_def Let_def
      split: get_event_response.split event.split)

lemma unknown_annotation:
  assumes "etype ev = ascii ''m.reaction''"
    and "map_of (source ev) (ascii ''content'') = Some (JDict c)"
    and "map_of c (ascii ''m.relates_to'') = Some (JDict r)"
    and "map_of r (ascii ''event_id'') = Some i" and "truthy i"
    and "map_of r (ascii ''rel_type'') = Some (JStr (ascii ''m.annotation''))"
  shows "unknown e s room ev = reaction e s room ev i"
  using assms by (simp add: unknown_def relation_dict_def)

text \<open>
  Joining the three characters of the separator literal with the body: the body comes
  out twice, after a line feed and after a \<^verbatim>\<open>>\<close>.
\<close>

lemma fallback_body_eq: "fallback_body b = [10] @ b @ [62] @ b @ [32]"
  by (simp add: fallback_body_def py_iter_def ascii_def)

lemma sublist_plain_body: "sublist b (plain_body c b)"
proof -
  have "plain_body c b
      = (ascii ''\<newline>> '' @ [c] @ ascii '' '' @ [10]) @ b
        @ ([62] @ b @ [32] @ ascii ''\<newline>\<newline>Pinned\<newline>'')"
    by (simp add: plain_body_def fallback_body_eq)
  then show ?thesis
    unfolding sublist_def by blast
qed

lemma sublist_formatted:
  "sublist pill (formatted room_slug event_slug pill quote_body)"
  "sublist quote_body (formatted room_slug event_slug pill quote_body)"
proof -
  show "sublist pill (formatted room_slug event_slug pill quote_body)"
    unfolding formatted_def sublist_def append_assoc [symmetric]
    by (metis append_assoc)
  show "sublist quote_body (formatted room_slug event_slug pill quote_body)"
    unfolding formatted_def sublist_def append_assoc [symmetric]
    by (metis append_assoc)
qed

text \<open>The sample scenario: Alice pins Bob's message after the first sync.\<close>

lemma live_pin_run:
  "unknown env0 live room0 pin_event =
     ret Pinned (live\<lparr>pinned := {E1}\<rparr>)
       [RoomGetEvent room0 E1,
        RoomSend (ascii ''!pins:hs'') (ascii ''m.room.message'')
          \<lparr>msgtype = ascii ''m.text'',
           body = ascii ''\<newline>> @ \<newline>hello>hello \<newline>\<newline>Pinned\<newline>'',
           format = ascii ''org.matrix.custom.html'',
           formatted_body = formatted room0 (ascii ''$E1'') (sample_pill (ascii ''@bob:hs''))
              (ascii ''hello'')\<rparr>]"
  by (simp add: sample_defs handler_defs plain_body_def fallback_body_def py_iter_def
      formatted_def)

subsection \<open>The sync gate\<close>

text \<open>
  Claim C8. While \<^verbatim>\<open>self.synced\<close> is false, a reaction is dropped: \<^verbatim>\<open>_reaction\<close>
  returns at its first check without raising, with no call on the client (no fetch, no
  send) and with the state as it was, so the ledger is unchanged and nothing records
  the reaction for later. The same holds when the reaction comes in through
  \<^verbatim>\<open>unknown\<close>. A later \<^verbatim>\<open>sync\<close> only sets the flag; it makes no call on the
  client, so nothing is replayed.
\<close>

theorem sync_gate_drops_reactions:
  assumes "\<not> synced s"
  shows "exit (reaction e s room ev i) = NotSynced
    \<and> final (reaction e s room ev i) = s
    \<and> effects (reaction e s room ev i) = []
    \<and> final (unknown e s room ev) = s
    \<and> effects (unknown e s room ev) = []
    \<and> sync (final (unknown e s room ev)) = ret Done (s\<lparr>synced := True\<rparr>) []"
  using assms unknown_not_synced [of s e room ev]
  by (simp add: reaction_not_synced sync_def)

text \<open>
  On the sample deployment: before the first sync the pin reaction of Alice leaves no
  trace, and the same reaction delivered after the sync is archived.
\<close>

theorem sync_gate_drops_reactions_witness:
  "\<not> synced (init cfg0)
   \<and> exit (reaction env0 (init cfg0) room0 pin_event E1) = NotSynced
   \<and> effects (unknown env0 (init cfg0) room0 pin_event) = []
   \<and> final (unknown env0 (init cfg0) room0 pin_event) = init cfg0
   \<and> exit (unknown env0 live room0 pin_event) = Pinned"
  using sync_gate_drops_reactions [of "init cfg0" env0 room0 pin_event E1]
  by (simp add: live_pin_run) (simp add: init_def)

subsection \<open>The order of the checks\<close>

text \<open>
  Claim C4, as the specification states it, puts the emoji check and the ledger check
  before any fetch of the original event. In \<^verbatim>\<open>_reaction\<close> the fetch (line 91)
  comes before both (lines 111 and 114): a thumbs-up reaction, and a pin reaction to a
  target that is already in the ledger, each cost one fetch before they are ignored.
\<close>

theorem ignored_reactions_fetch_first:
  "exit (reaction env0 live room0 thumb_event E1) = NotPinEmoji
   \<and> effects (reaction env0 live room0 thumb_event E1) = [RoomGetEvent room0 E1]
   \<and> exit (reaction env0 (live\<lparr>pinned := {E1}\<rparr>) room0 pin_event E1) = AlreadyPinned
   \<and> effects (reaction env0 (live\<lparr>pinned := {E1}\<rparr>) room0 pin_event E1)
       = [RoomGetEvent room0 E1]"
  by (simp add: sample_defs thumb_event_def handler_defs pin_glyph_def)

text \<open>
  Claim C4, amended. \<^verbatim>\<open>_reaction\<close> checks in this order, and the first check that
  matches ends the call: (1) the sync gate, (2) the room is the archive room; only when
  both pass is the original event fetched, exactly once; then the fetch failed, the
  event is undecryptable, the event is the bot's own; then (3) the emoji is not the pin
  glyph; then (4) the target is in the ledger. So a reaction with another emoji, or to
  an archived target, is ignored after the fetch, not before it. Each line below gives
  the exact condition under which the call ends at that check; no condition mentions a
  later check.
\<close>

theorem reaction_check_order:
  "let r = reaction e s room ev i;
       past_gates = (synced s \<and> room \<noteq> pins_room (config s));
       fetched = client_room_get_event e room i;
       foreign = (\<exists>sender b fb. fetched = RoomGetEventResponse (Event sender b fb)
                    \<and> sender \<noteq> user_id (config s))
   in (exit r = NotSynced \<longleftrightarrow> \<not> synced s)
    \<and> (exit r = InPinsRoom \<longleftrightarrow> synced s \<and> room = pins_room (config s))
    \<and> (fetches r = (if past_gates then [RoomGetEvent room i] else []))
    \<and> (exit r = GetEventFailed \<longleftrightarrow> past_gates \<and> fetched = RoomGetEventError)
    \<and> (exit r = Undecryptable \<longleftrightarrow> past_gates \<and> fetched = RoomGetEventResponse MegolmEvent)
    \<and> (exit r = OwnEvent \<longleftrightarrow>
          past_gates \<and> (\<exists>b fb. fetched = RoomGetEventResponse (Event (user_id (config s)) b fb)))
    \<and> (exit r = NotPinEmoji \<longleftrightarrow>
          past_gates \<and> foreign
          \<and> (\<exists>emoji. reaction_emoji (source ev) = Inr emoji \<and> emoji \<noteq> JStr pin_glyph))
    \<and> (exit r = AlreadyPinned \<longleftrightarrow>
          past_gates \<and> foreign \<and> reaction_emoji (source ev) = Inr (JStr pin_glyph)
          \<and> \<not> unhashable i \<and> i \<in> pinned s)"
proof -
  define r where "r = reaction e s room ev i"
  define past_gates where "past_gates = (synced s \<and> room \<noteq> pins_room (config s))"
  define fetched where "fetched = client_room_get_event e room i"
  define foreign where "foreign = (\<exists>sender b fb. fetched = RoomGetEventResponse (Event sender b fb)
                    \<and> sender \<noteq> user_id (config s))"
  note defs = r_def past_gates_def fetched_def foreign_def
  have 1: "exit r = NotSynced \<longleftrightarrow> \<not> synced s"
    unfolding defs
    by (auto simp add: reaction_def Let_def dest: pin_exitD
        split: get_event_response.split event.split sum.split)
  have 2: "exit r = InPinsRoom \<longleftrightarrow> synced s \<and> room = pins_room (config s)"
    unfolding defs
    by (auto simp add: reaction_def Let_def dest: pin_exitD
        split: get_event_response.split event.split sum.split)
  have 3: "fetches r = (if past_gates then [RoomGetEvent room i] else [])"
    unfolding defs
    by (simp add: reaction_def Let_def pin_fetches fetches_def
        split: get_event_response.split event.split sum.split)
  have 4: "exit r = GetEventFailed \<longleftrightarrow> past_gates \<and> fetched = RoomGetEventError"
    unfolding defs
    by (auto simp add: reaction_def Let_def dest: pin_exitD
        split: get_event_response.split event.split sum.split)
  have 5: "exit r = Undecryptable \<longleftrightarrow> past_gates \<and> fetched = RoomGetEventResponse MegolmEvent"
    unfolding defs
    by (auto simp add: reaction_def Let_def dest: pin_exitD
        split: get_event_response.split event.split sum.split)
  have 6: "exit r = OwnEvent \<longleftrightarrow>
          past_gates \<and> (\<exists>b fb. fetched = RoomGetEventResponse (Event (user_id (config s)) b fb))"
    unfolding defs
    by (auto simp add: reaction_def Let_def dest: pin_exitD
        split: get_event_response.split event.split sum.split)
  have 7: "exit r = NotPinEmoji \<longleftrightarrow>
          past_gates \<and> foreign
          \<and> (\<exists>emoji. reaction_emoji (source ev) = Inr emoji \<and> emoji \<noteq> JStr pin_glyph)"
    unfolding defs
    by (auto simp add: reaction_def Let_def dest: pin_exitD
        split: get_event_response.split event.split sum.split)
  have 8: "exit r = AlreadyPinned \<longleftrightarrow>
          past_gates \<and> foreign \<and> reaction_emoji (source ev) = Inr (JStr pin_glyph)
          \<and> \<not> unhashable i \<and> i \<in> pinned s"
    unfolding defs
    by (auto simp add: reaction_def Let_def dest: pin_exitD
        split: get_event_response.split event.split sum.split)
  from 1 2 3 4 5 6 7 8 show ?thesis
    unfolding Let_def defs by blast
qed

text \<open>
  In the archive room the pin reaction of Alice ends at the second check, before any
  fetch.
\<close>

theorem reaction_check_order_witness:
  "exit (reaction env0 live (ascii ''!pins:hs'') pin_event E1) = InPinsRoom
   \<and> fetches (reaction env0 live (ascii ''!pins:hs'') pin_event E1) = []"
  using reaction_check_order [of env0 live "ascii ''!pins:hs''" pin_event E1]
  by (simp add: Let_def) (simp add: live_def init_def cfg0_def)

subsection \<open>Archiving a pinned message\<close>

text \<open>
  What an archived pin looks like. Take a reaction event of type \<^verbatim>\<open>m.reaction\<close>
  that annotates the event \<open>eid\<close> with the literal of line 111, delivered after the
  first sync in a room that is not the archive room, with \<open>eid\<close> not in the ledger,
  and let the fetch return a decrypted event that has a \<^verbatim>\<open>body\<close> and a
  \<^verbatim>\<open>formatted_body\<close> attribute (a string or \<^verbatim>\<open>None\<close>), written by a user other
  than the bot whose identifier is not empty. Then the pipeline fetches the event and
  sends exactly one message, to the archive room. The plain-text body of that message
  contains the original body; its formatted body contains the pill of the original
  author and the quoted body (the formatted body of the original when it has one, its
  plain body otherwise). The target is added to the ledger and nothing else in the
  state changes.
\<close>

lemma pin_reaction_archived:
  assumes "synced s" and "room \<noteq> pins_room (config s)"
    and "etype ev = ascii ''m.reaction''"
    and "map_of (source ev) (ascii ''content'') = Some (JDict c)"
    and "map_of c (ascii ''m.relates_to'') = Some (JDict r)"
    and "map_of r (ascii ''event_id'') = Some (JStr eid)" and "eid \<noteq> []"
    and "map_of r (ascii ''rel_type'') = Some (JStr (ascii ''m.annotation''))"
    and "map_of r (ascii ''key'') = Some (JStr pin_glyph)"
    and "JStr eid \<notin> pinned s"
    and "client_room_get_event e room (JStr eid)
           = RoomGetEventResponse (Event sender (Some b) fb)"
    and "fb \<noteq> NoAttr"
    and "sender \<noteq> user_id (config s)" and "sender \<noteq> []"
  shows "\<exists>msg. unknown e s room ev
           = ret Pinned (s\<lparr>pinned := insert (JStr eid) (pinned s)\<rparr>)
               [RoomGetEvent room (JStr eid),
                RoomSend (pins_room (config s)) (ascii ''m.room.message'') msg]
         \<and> sent (unknown e s room ev) = [msg]
         \<and> sublist b (body msg)
         \<and> sublist (make_pill e sender) (formatted_body msg)
         \<and> sublist (case fb of AttrStr f \<Rightarrow> f | _ \<Rightarrow> b) (formatted_body msg)"
proof -
  from assms have u: "unknown e s room ev = reaction e s room ev (JStr eid)"
    by (intro unknown_annotation) simp_all
  from assms have emoji: "reaction_emoji (source ev) = Inr (JStr pin_glyph)"
    by (simp add: reaction_emoji_def relation_dict_def)
  from \<open>sender \<noteq> []\<close> obtain ch rest where sender: "sender = ch # rest"
    by (cases sender) simp_all
  define msg where "msg =
     \<lparr>msgtype = ascii ''m.text'',
      body = plain_body ch b,
      format = ascii ''org.matrix.custom.html'',
      formatted_body = formatted room (py_format (JStr eid)) (make_pill e sender)
              (case fb of AttrStr f \<Rightarrow> f | _ \<Rightarrow> b)\<rparr>"
  from assms emoji
  have "reaction e s room ev (JStr eid)
      = pin e s room (JStr eid) sender (Some b) fb [RoomGetEvent room (JStr eid)]"
    by (intro reaction_live) simp_all
  with u pin_ok [OF sender \<open>fb \<noteq> NoAttr\<close>, of e s room "JStr eid" b "[RoomGetEvent room (JStr eid)]"]
  have run: "unknown e s room ev
           = ret Pinned (s\<lparr>pinned := insert (JStr eid) (pinned s)\<rparr>)
               [RoomGetEvent room (JStr eid),
                RoomSend (pins_room (config s)) (ascii ''m.room.message'') msg]"
    by (simp add: msg_def)
  then have one: "sent (unknown e s room ev) = [msg]"
    by (simp add: sent_def)
  have plain: "sublist b (body msg)"
    by (simp add: msg_def sublist_plain_body)
  have pill: "sublist (make_pill e sender) (formatted_body msg)"
    by (simp add: msg_def sublist_formatted)
  have quote: "sublist (case fb of AttrStr f \<Rightarrow> f | _ \<Rightarrow> b) (formatted_body msg)"
    by (simp add: msg_def sublist_formatted)
  from run one plain pill quote show ?thesis by blast
qed

text \<open>Alice pins Bob's message on the sample deployment.\<close>

lemma pin_reaction_archived_sample:
  "\<exists>msg. unknown env0 live room0 pin_event
           = ret Pinned (live\<lparr>pinned := {E1}\<rparr>)
               [RoomGetEvent room0 E1,
                RoomSend (ascii ''!pins:hs'') (ascii ''m.room.message'') msg]
         \<and> sent (unknown env0 live room0 pin_event) = [msg]
         \<and> sublist (ascii ''hello'') (body msg)
         \<and> sublist (sample_pill (ascii ''@bob:hs'')) (formatted_body msg)
         \<and> sublist (ascii ''hello'') (formatted_body msg)"
proof -
  have "\<exists>msg. unknown env0 live room0 pin_event
           = ret Pinned (live\<lparr>pinned := insert (JStr (ascii ''$E1'')) (pinned live)\<rparr>)
               [RoomGetEvent room0 (JStr (ascii ''$E1'')),
                RoomSend (pins_room (config live)) (ascii ''m.room.message'') msg]
         \<and> sent (unknown env0 live room0 pin_event) = [msg]
         \<and> sublist (ascii ''hello'') (body msg)
         \<and> sublist (make_pill env0 (ascii ''@bob:hs'')) (formatted_body msg)
         \<and> sublist (case AttrNone of AttrStr f \<Rightarrow> f | _ \<Rightarrow> ascii ''hello'') (formatted_body msg)"
    by (rule pin_reaction_archived
          [where c = "[(ascii ''m.relates_to'',
                        JDict [(ascii ''event_id'', E1),
                               (ascii ''rel_type'', JStr (ascii ''m.annotation'')),
                               (ascii ''key'', JStr pin_glyph)])]"
             and r = "[(ascii ''event_id'', E1),
                       (ascii ''rel_type'', JStr (ascii ''m.annotation'')),
                       (ascii ''key'', JStr pin_glyph)]"])
       (simp_all add: sample_defs ascii_def)
  then show ?thesis
    by (simp add: sample_defs)
qed

text \<open>
  Claim C1 on the sample deployment: after the sync, in a room that is not the archive
  room, Alice reacts to Bob's message \<^verbatim>\<open>hello\<close>, which is not in the ledger. With
  the literal of line 111 as the key, one message is sent, but its plain-text body
  holds neither the identifier of Alice, whom the handler never writes into the
  message, nor the identifier of Bob, of which line 127 takes the first character
  only (\<^verbatim>\<open>sender[0]\<close>). With the pushpin emoji U+1F4CC as the key, the call ends at
  the emoji check of line 111 after the fetch: nothing is sent and the ledger stays
  as it was.
\<close>

theorem plain_body_lacks_identifier:
  "esender pin_event = ascii ''@alice:hs''
   \<and> map body (sent (unknown env0 live room0 pin_event))
       = [ascii ''\<newline>> @ \<newline>hello>hello \<newline>\<newline>Pinned\<newline>'']
   \<and> \<not> sublist (ascii ''@alice:hs'')
         (ascii ''\<newline>> @ \<newline>hello>hello \<newline>\<newline>Pinned\<newline>'')
   \<and> \<not> sublist (ascii ''@bob:hs'')
         (ascii ''\<newline>> @ \<newline>hello>hello \<newline>\<newline>Pinned\<newline>'')
   \<and> unknown env0 live room0 pushpin_event
       = ret NotPinEmoji live [RoomGetEvent room0 E1]"
proof -
  have "esender pin_event = ascii ''@alice:hs''"
    by (simp add: pin_event_def relates_def)
  moreover have "map body (sent (unknown env0 live room0 pin_event))
       = [ascii ''\<newline>> @ \<newline>hello>hello \<newline>\<newline>Pinned\<newline>'']"
    by (simp add: live_pin_run sent_def)
  moreover have "\<not> sublist (ascii ''@alice:hs'')
         (ascii ''\<newline>> @ \<newline>hello>hello \<newline>\<newline>Pinned\<newline>'')"
    by (simp add: ascii_def sublist_code)
  moreover have "\<not> sublist (ascii ''@bob:hs'')
         (ascii ''\<newline>> @ \<newline>hello>hello \<newline>\<newline>Pinned\<newline>'')"
    by (simp add: ascii_def sublist_code)
  moreover have "unknown env0 live room0 pushpin_event
       = ret NotPinEmoji live [RoomGetEvent room0 E1]"
    by (simp add: sample_defs pushpin_event_def handler_defs pin_glyph_def)
  ultimately show ?thesis by blast
qed

subsection \<open>A second pin of the same message\<close>

text \<open>
  Claim C5, as the specification states it, promises exactly one send for every pair
  of pin reactions to one target delivered after the sync. Two pin reactions that
  arrive in the archive room are both stopped at the second check: no send at all.
\<close>

theorem archive_room_pair_sends_nothing:
  "synced live
   \<and> reaction_emoji (source pin_event) = Inr (JStr pin_glyph)
   \<and> sends (reaction env0 live (pins_room cfg0) pin_event E1) = []
   \<and> sends (reaction env0 (final (reaction env0 live (pins_room cfg0) pin_event E1))
              (pins_room cfg0) pin_event E1) = []"
  by (simp add: sample_defs handler_defs sends_def)

text \<open>
  Claim C5, amended. Two reactions to the same target, handled one after the other,
  lead to at most one send, whatever the rooms, the events and the answers of the
  client are. When the first call archives the target (it ends at the last line of
  \<^verbatim>\<open>_reaction\<close>), it makes exactly one send
  and the target is in the ledger afterwards; the second call then sends nothing, and
  the same reaction delivered again ends at the ledger check after its fetch.
\<close>

theorem repeated_pin_sends_once:
  "let r1 = reaction e1 s room1 ev1 i;
       r2 = reaction e2 (final r1) room2 ev2 i;
       again = reaction e1 (final r1) room1 ev1 i
   in length (sends r1) + length (sends r2) \<le> 1
    \<and> (exit r1 = Pinned \<longrightarrow>
          length (sends r1) = 1 \<and> i \<in> pinned (final r1)
          \<and> sends r2 = [] \<and> exit r2 \<noteq> Pinned
          \<and> again = ret AlreadyPinned (final r1) [RoomGetEvent room1 i])"
proof -
  define r1 where "r1 = reaction e1 s room1 ev1 i"
  define r2 where "r2 = reaction e2 (final r1) room2 ev2 i"
  define again where "again = reaction e1 (final r1) room1 ev1 i"
  have s1: "length (sends r1) = (if exit r1 = Pinned then 1 else 0)"
    unfolding r1_def by (rule reaction_sends_length)
  have s2: "length (sends r2) = (if exit r2 = Pinned then 1 else 0)"
    unfolding r2_def by (rule reaction_sends_length)
  have after: "final r1 = s\<lparr>pinned := insert i (pinned s)\<rparr>" if "exit r1 = Pinned"
    using that unfolding r1_def by (rule reaction_Pinned_final)
  have stop: "exit r2 \<noteq> Pinned" if "exit r1 = Pinned"
    unfolding r2_def using after [OF that] by (simp add: reaction_Pinned_iff)
  have repeat: "again = ret AlreadyPinned (final r1) [RoomGetEvent room1 i]"
    if p: "exit r1 = Pinned"
  proof -
    from p have "synced s" "room1 \<noteq> pins_room (config s)"
      "reaction_emoji (source ev1) = Inr (JStr pin_glyph)" "\<not> unhashable i"
      unfolding r1_def reaction_Pinned_iff by simp_all
    moreover from p obtain sender b fb where
      "client_room_get_event e1 room1 i = RoomGetEventResponse (Event sender (Some b) fb)"
      "sender \<noteq> user_id (config s)"
      unfolding r1_def reaction_Pinned_iff by blast
    ultimately show ?thesis
      unfolding again_def after [OF p] by (simp add: reaction_def)
  qed
  have "length (sends r1) + length (sends r2) \<le> 1"
    using s1 s2 stop by simp
  moreover have "length (sends r1) = 1 \<and> i \<in> pinned (final r1)
          \<and> sends r2 = [] \<and> exit r2 \<noteq> Pinned
          \<and> again = ret AlreadyPinned (final r1) [RoomGetEvent room1 i]"
    if p: "exit r1 = Pinned"
    using s1 s2 stop [OF p] repeat [OF p] after [OF p] p by simp
  ultimately show ?thesis
    unfolding Let_def r1_def r2_def again_def by blast
qed

text \<open>Alice pins Bob's message twice: one send, and the second call ends at the ledger check.\<close>

theorem repeated_pin_sends_once_witness:
  "exit (reaction env0 live room0 pin_event E1) = Pinned
   \<and> length (sends (reaction env0 live room0 pin_event E1)) = 1
   \<and> reaction env0 (final (reaction env0 live room0 pin_event E1)) room0 pin_event E1
       = ret AlreadyPinned (live\<lparr>pinned := {E1}\<rparr>) [RoomGetEvent room0 E1]"
proof -
  have p: "exit (reaction env0 live room0 pin_event E1) = Pinned"
    by (simp add: sample_defs handler_defs)
  have f: "final (reaction env0 live room0 pin_event E1) = live\<lparr>pinned := {E1}\<rparr>"
    by (simp add: reaction_Pinned_final [OF p]) (simp add: sample_defs)
  from p repeated_pin_sends_once [of env0 live room0 pin_event E1 env0 room0 pin_event]
  show ?thesis
    unfolding Let_def f by simp
qed

subsection \<open>The ledger after a failed send\<close>

text \<open>
  Claim C3 at a homeserver that answers the send with \<^verbatim>\<open>RoomSendError\<close>. The
  handler does not look at what \<^verbatim>\<open>room_send\<close> returns: the one send of the run was
  refused, the target is in the ledger all the same, and the same reaction delivered
  again ends at the ledger check without a second send.
\<close>

theorem refused_send_is_recorded:
  "answers env_down (unknown env_down live room0 pin_event) = [RoomSendError]
   \<and> E1 \<in> pinned (final (unknown env_down live room0 pin_event))
   \<and> exit (unknown env_down (final (unknown env_down live room0 pin_event)) room0 pin_event)
       = AlreadyPinned
   \<and> sends (unknown env_down (final (unknown env_down live room0 pin_event)) room0 pin_event)
       = []"
proof -
  have first: "\<exists>msg. unknown env_down live room0 pin_event
      = ret Pinned (live\<lparr>pinned := {E1}\<rparr>)
          [RoomGetEvent room0 E1,
           RoomSend (ascii ''!pins:hs'') (ascii ''m.room.message'') msg]"
    by (simp add: sample_defs env_down_def handler_defs)
  then obtain msg where run: "unknown env_down live room0 pin_event
      = ret Pinned (live\<lparr>pinned := {E1}\<rparr>)
          [RoomGetEvent room0 E1,
           RoomSend (ascii ''!pins:hs'') (ascii ''m.room.message'') msg]"
    by blast
  have refused: "answers env_down (unknown env_down live room0 pin_event) = [RoomSendError]"
    unfolding run by (simp add: answers_def env_down_def client_def)
  have second: "unknown env_down (live\<lparr>pinned := {E1}\<rparr>) room0 pin_event
      = ret AlreadyPinned (live\<lparr>pinned := {E1}\<rparr>) [RoomGetEvent room0 E1]"
    by (simp add: sample_defs env_down_def handler_defs)
  from refused show ?thesis
    unfolding run by (simp add: second sends_def)
qed

subsection \<open>The plain-text quotation\<close>

text \<open>
  Claim C2 at a body of two lines. Line 124 joins the three characters of the literal
  with the body as separator, so the body is written twice and unchanged: no line of it
  starts with the quote marker. The only quote marker of the record stands before the
  first character of the sender.
\<close>

theorem two_lines_are_not_quoted:
  "plain_body c b
     = ascii ''\<newline>> '' @ [c] @ ascii '' \<newline>'' @ b @ ascii ''>'' @ b
       @ ascii '' \<newline>\<newline>Pinned\<newline>''
   \<and> map body (sent (unknown env_lines live room0 pin_event))
       = [ascii ''\<newline>> @ \<newline>first\<newline>second>first\<newline>second \<newline>\<newline>Pinned\<newline>'']"
proof -
  have shape: "plain_body c b
     = ascii ''\<newline>> '' @ [c] @ ascii '' \<newline>'' @ b @ ascii ''>'' @ b
       @ ascii '' \<newline>\<newline>Pinned\<newline>''" for c b
    by (simp add: plain_body_def fallback_body_eq ascii_def)
  have "\<exists>f. sent (unknown env_lines live room0 pin_event)
      = [\<lparr>msgtype = ascii ''m.text'',
          body = plain_body (of_char CHR ''@'') (ascii ''first\<newline>second''),
          format = ascii ''org.matrix.custom.html'',
          formatted_body = f\<rparr>]"
    by (simp add: sample_defs env_lines_def handler_defs sent_def)
  then have "map body (sent (unknown env_lines live room0 pin_event))
      = [plain_body (of_char CHR ''@'') (ascii ''first\<newline>second'')]"
    by auto
  also have "\<dots> = [ascii ''\<newline>> @ \<newline>first\<newline>second>first\<newline>second \<newline>\<newline>Pinned\<newline>'']"
    by (simp add: shape) (simp add: ascii_def)
  finally show ?thesis
    using shape by simp
qed

subsection \<open>The formatted body\<close>

text \<open>
  Claim C6 at a plain body that is markup, for a message without a formatted body.
  \<^verbatim>\<open>quote_body\<close> is the plain body, and the f-string of lines 136 to 148 writes it
  as it is (line 149 notes the missing escaping): the formatted body that is sent
  contains the \<^verbatim>\<open>img\<close> element of the body character for character.
\<close>

theorem markup_body_is_not_escaped:
  \<open>map formatted_body (sent (unknown env_markup live room0 pin_event))
     = [ascii ''\<newline><mx-reply>\<newline>  <blockquote>\<newline>    <a href="https://matrix.to/#/!room:hs/$E1">Pinned</a>\<newline>    ''
        @ sample_pill (ascii ''@bob:hs'')
        @ ascii ''\<newline>    <br />\<newline>    <!-- This is where the related event's HTML would be. -->\<newline>    <img src=x onerror=alert(1)>\<newline>  </blockquote>\<newline></mx-reply>\<newline>'']\<close>
  by (simp add: sample_defs env_markup_def handler_defs sent_def formatted_def)

subsection \<open>Reaction events with missing fields\<close>

text \<open>
  Claim C9, as it is stated, speaks of metadata that is arbitrarily malformed and of
  lookups that are total. The lookups default only where a key is missing: where
  \<^verbatim>\<open>content\<close> or \<^verbatim>\<open>m.relates_to\<close> is present and is not an object, the next
  \<^verbatim>\<open>.get\<close> raises \<^verbatim>\<open>AttributeError\<close> in \<^verbatim>\<open>unknown\<close> (lines 202 and 204),
  before any call on the client.
\<close>

theorem non_object_field_raises:
  "unknown env0 live room0 nullcontent_event = ret (Raised AttributeError) live []
   \<and> unknown env0 live room0 nullrel_event = ret (Raised AttributeError) live []
   \<and> unknown env0 live room0 badtype_event = ret (Raised AttributeError) live []"
  by (simp add: nullcontent_event_def nullrel_event_def badtype_event_def handler_defs)

text \<open>
  Claim C9, amended. Take a reaction event in which the content is absent, or the
  content is an object without \<^verbatim>\<open>m.relates_to\<close>, or the relation is an object in
  which the target event id is absent or empty, or the relation kind is absent, or the
  emoji key is absent. Then \<^verbatim>\<open>unknown\<close> ends without an exception (at its debug line, or at
  one of the returns of \<^verbatim>\<open>_reaction\<close> up to the emoji check), sends nothing and
  leaves the state as it was. Where the emoji key is missing on the way down,
  \<^verbatim>\<open>reaction_emoji\<close> is \<^verbatim>\<open>None\<close> and \<^verbatim>\<open>_reaction\<close>, however it is called,
  treats the event as a reaction that is not a pin.
\<close>

theorem malformed_reaction_dropped:
  assumes "map_of (source ev) (ascii ''content'') = None
     \<or> (\<exists>c. map_of (source ev) (ascii ''content'') = Some (JDict c) \<and>
          (map_of c (ascii ''m.relates_to'') = None
           \<or> (\<exists>r. map_of c (ascii ''m.relates_to'') = Some (JDict r) \<and>
                (map_of r (ascii ''event_id'') = None
                 \<or> (\<exists>v. map_of r (ascii ''event_id'') = Some v \<and> \<not> truthy v)
                 \<or> map_of r (ascii ''rel_type'') = None
                 \<or> map_of r (ascii ''key'') = None))))"
  shows "exit (unknown e s room ev)
       \<in> {Unhandled, NotSynced, InPinsRoom, GetEventFailed, Undecryptable, OwnEvent,
          NotPinEmoji}
     \<and> sends (unknown e s room ev) = []
     \<and> final (unknown e s room ev) = s
     \<and> (map_of (source ev) (ascii ''content'') = None
        \<or> (\<exists>c. map_of (source ev) (ascii ''content'') = Some (JDict c) \<and>
             (map_of c (ascii ''m.relates_to'') = None
              \<or> (\<exists>r. map_of c (ascii ''m.relates_to'') = Some (JDict r) \<and>
                     map_of r (ascii ''key'') = None)))
        \<longrightarrow> reaction_emoji (source ev) = Inr JNull
          \<and> exit (reaction e s room ev i)
              \<in> {NotSynced, InPinsRoom, GetEventFailed, Undecryptable, OwnEvent, NotPinEmoji}
          \<and> sends (reaction e s room ev i) = []
          \<and> final (reaction e s room ev i) = s)"
proof -
  let ?dropped = "exit (unknown e s room ev)
       \<in> {Unhandled, NotSynced, InPinsRoom, GetEventFailed, Undecryptable, OwnEvent,
          NotPinEmoji}
     \<and> sends (unknown e s room ev) = []
     \<and> final (unknown e s room ev) = s"
  have empty: ?dropped if "relation_dict (source ev) = Inr (JDict [])"
    using that by (simp add: unknown_def)
  have in_dict: ?dropped
    if rd: "relation_dict (source ev) = Inr (JDict r)"
      and r: "map_of r (ascii ''event_id'') = None
         \<or> (\<exists>v. map_of r (ascii ''event_id'') = Some v \<and> \<not> truthy v)
         \<or> map_of r (ascii ''rel_type'') = None
         \<or> map_of r (ascii ''key'') = None" for r
    using r
  proof (elim disjE exE conjE)
    assume "map_of r (ascii ''event_id'') = None"
    with rd show ?thesis by (simp add: unknown_def)
  next
    fix v assume "map_of r (ascii ''event_id'') = Some v" and "\<not> truthy v"
    with rd show ?thesis by (simp add: unknown_def)
  next
    assume "map_of r (ascii ''rel_type'') = None"
    with rd show ?thesis by (simp add: unknown_def split: option.split)
  next
    assume "map_of r (ascii ''key'') = None"
    with rd have "reaction_emoji (source ev) = Inr JNull"
      by (simp add: reaction_emoji_def)
    from reaction_no_key [OF this, of e s room] rd show ?thesis
      by (simp add: unknown_def split: option.split)
  qed
  from assms have dropped: ?dropped
  proof (elim disjE [of "map_of (source ev) (ascii ''content'') = None"] exE conjE
      disjE [of "map_of _ (ascii ''m.relates_to'') = None"])
    assume "map_of (source ev) (ascii ''content'') = None"
    then have "relation_dict (source ev) = Inr (JDict [])"
      by (simp add: relation_dict_def)
    then show ?thesis by (rule empty)
  next
    fix c
    assume "map_of (source ev) (ascii ''content'') = Some (JDict c)"
      and "map_of c (ascii ''m.relates_to'') = None"
    then have "relation_dict (source ev) = Inr (JDict [])"
      by (simp add: relation_dict_def)
    then show ?thesis by (rule empty)
  next
    fix c r
    assume "map_of (source ev) (ascii ''content'') = Some (JDict c)"
      and "map_of c (ascii ''m.relates_to'') = Some (JDict r)"
    then have rd: "relation_dict (source ev) = Inr (JDict r)"
      by (simp add: relation_dict_def)
    moreover assume "map_of r (ascii ''event_id'') = None
         \<or> (\<exists>v. map_of r (ascii ''event_id'') = Some v \<and> \<not> truthy v)
         \<or> map_of r (ascii ''rel_type'') = None
         \<or> map_of r (ascii ''key'') = None"
    ultimately show ?thesis by (rule in_dict)
  qed
  have no_key: "reaction_emoji (source ev) = Inr JNull"
    if "map_of (source ev) (ascii ''content'') = None
        \<or> (\<exists>c. map_of (source ev) (ascii ''content'') = Some (JDict c) \<and>
             (map_of c (ascii ''m.relates_to'') = None
              \<or> (\<exists>r. map_of c (ascii ''m.relates_to'') = Some (JDict r) \<and>
                     map_of r (ascii ''key'') = None)))"
    using that by (auto simp add: reaction_emoji_def relation_dict_def)
  from dropped no_key reaction_no_key [of ev e s room i] show ?thesis
    by blast
qed

text \<open>
  A pin-shaped annotation of \<open>E1\<close> without the \<^verbatim>\<open>key\<close> field, delivered after the
  sync: the original is fetched, then the call ends at the emoji check.
\<close>

theorem malformed_reaction_dropped_witness:
  "exit (unknown env0 live room0 nokey_event) = NotPinEmoji
   \<and> effects (unknown env0 live room0 nokey_event) = [RoomGetEvent room0 E1]
   \<and> sends (unknown env0 live room0 nokey_event) = []
   \<and> final (unknown env0 live room0 nokey_event) = live"
proof -
  have "\<exists>c. map_of (source nokey_event) (ascii ''content'') = Some (JDict c) \<and>
          (\<exists>r. map_of c (ascii ''m.relates_to'') = Some (JDict r) \<and>
                map_of r (ascii ''key'') = None)"
    by (simp add: nokey_event_def relates_def ascii_def)
  then have "map_of (source nokey_event) (ascii ''content'') = None
     \<or> (\<exists>c. map_of (source nokey_event) (ascii ''content'') = Some (JDict c) \<and>
          (map_of c (ascii ''m.relates_to'') = None
           \<or> (\<exists>r. map_of c (ascii ''m.relates_to'') = Some (JDict r) \<and>
                (map_of r (ascii ''event_id'') = None
                 \<or> (\<exists>v. map_of r (ascii ''event_id'') = Some v \<and> \<not> truthy v)
                 \<or> map_of r (ascii ''rel_type'') = None
                 \<or> map_of r (ascii ''key'') = None))))"
    by blast
  from malformed_reaction_dropped [OF this, of env0 live room0 E1]
  have "sends (unknown env0 live room0 nokey_event) = []
     \<and> final (unknown env0 live room0 nokey_event) = live"
    by blast
  moreover have "exit (unknown env0 live room0 nokey_event) = NotPinEmoji
     \<and> effects (unknown env0 live room0 nokey_event) = [RoomGetEvent room0 E1]"
    by (simp add: sample_defs nokey_event_def handler_defs)
  ultimately show ?thesis by blast
qed

subsection \<open>What a handler may change\<close>

text \<open>
  Claim C10. A call of \<^verbatim>\<open>_reaction\<close> leaves the configuration and the sync flag
  as they were, and the ledger is afterwards either the ledger before or the ledger
  before with the target event id added: nothing is removed or replaced. The same
  holds for \<^verbatim>\<open>unknown\<close>, which hands its target to \<^verbatim>\<open>_reaction\<close>. \<^verbatim>\<open>invite\<close>
  and \<^verbatim>\<open>decryption_failure\<close> change nothing. \<^verbatim>\<open>sync\<close> is the only handler that
  writes the flag, and it writes \<^verbatim>\<open>True\<close>.
\<close>

theorem handlers_frame:
  "config (final (reaction e s room ev i)) = config s
   \<and> synced (final (reaction e s room ev i)) = synced s
   \<and> (pinned (final (reaction e s room ev i)) = pinned s
      \<or> pinned (final (reaction e s room ev i)) = insert i (pinned s))
   \<and> config (final (unknown e s room ev)) = config s
   \<and> synced (final (unknown e s room ev)) = synced s
   \<and> (pinned (final (unknown e s room ev)) = pinned s
      \<or> (\<exists>j. pinned (final (unknown e s room ev)) = insert j (pinned s)))
   \<and> final (invite e s room) = s
   \<and> final (decryption_failure e s room) = s
   \<and> final (sync s) = s\<lparr>synced := True\<rparr>"
proof -
  have r: "final (reaction e s room ev i) = s
      \<or> final (reaction e s room ev i) = s\<lparr>pinned := insert i (pinned s)\<rparr>"
    by (rule reaction_final)
  have u: "final (unknown e s room ev) = s
      \<or> (\<exists>j. final (unknown e s room ev) = s\<lparr>pinned := insert j (pinned s)\<rparr>)"
    by (rule unknown_final)
  have i: "final (invite e s room) = s"
    by (simp add: invite_def split: prod.split)
  have d: "final (decryption_failure e s room) = s"
    by (simp add: decryption_failure_def)
  have y: "final (sync s) = s\<lparr>synced := True\<rparr>"
    by (simp add: sync_def)
  from r have r1: "config (final (reaction e s room ev i)) = config s"
    and r2: "synced (final (reaction e s room ev i)) = synced s"
    and r3: "pinned (final (reaction e s room ev i)) = pinned s
      \<or> pinned (final (reaction e s room ev i)) = insert i (pinned s)"
    by auto
  from u have u1: "config (final (unknown e s room ev)) = config s"
    and u2: "synced (final (unknown e s room ev)) = synced s"
    and u3: "pinned (final (unknown e s room ev)) = pinned s
      \<or> (\<exists>j. pinned (final (unknown e s room ev)) = insert j (pinned s))"
    by auto
  from r1 r2 r3 u1 u2 u3 i d y show ?thesis by simp
qed

subsection \<open>Joining on an invite\<close>

text \<open>The loop of \<^verbatim>\<open>invite\<close> unrolled: \<^verbatim>\<open>range(3)\<close> has three elements.\<close>

lemma range3: "[0..<3] = [0, 1, Suc (Suc 0)]"
  by (simp add: numeral_3_eq_3 upt_rec)

lemma invite_cases:
  "invite e s room =
     (case client_join e room 0 of
        JoinResponse \<Rightarrow> ret Joined s [Join room]
      | JoinError m0 \<Rightarrow>
          (case client_join e room 1 of
             JoinResponse \<Rightarrow> ret Joined s [Join room, Sleep 1, Join room]
           | JoinError m1 \<Rightarrow>
               (case client_join e room 2 of
                  JoinResponse \<Rightarrow>
                    ret Joined s [Join room, Sleep 1, Join room, Sleep 1, Join room]
                | JoinError m2 \<Rightarrow>
                    ret GaveUp s
                      [Join room, Sleep 1, Join room, Sleep 1, Join room, Sleep 1])))"
  by (simp add: invite_def range3 numeral_2_eq_2 split: join_response.split)

lemma not_response: "(r \<noteq> JoinResponse) = (\<exists>m. r = JoinError m)"
  by (cases r) simp_all

text \<open>
  Claim C7, as the specification states it, bounds the pauses of the retry loop by two
  seconds. The loop sleeps after every failed attempt, the last one included: when
  the homeserver refuses all three joins the handler sleeps three times.
\<close>

theorem invite_sleeps_three_seconds:
  "invite env_down live room0
     = ret GaveUp live [Join room0, Sleep 1, Join room0, Sleep 1, Join room0, Sleep 1]
   \<and> slept (invite env_down live room0) = 3"
  by (simp add: invite_cases env_down_def client_def slept_def)

text \<open>
  Claim C7, amended. \<^verbatim>\<open>invite\<close> calls \<^verbatim>\<open>join\<close> at most three times and never
  changes the state. Each failed attempt, the third included, is followed by a pause
  of one second, so the pauses add up to at most three seconds. The first successful
  attempt ends the loop with no pause after it: when attempt \<open>k\<close> is the first to
  succeed there are \<open>k + 1\<close> joins and \<open>k\<close> pauses. When all three attempts fail
  the handler gives up after three joins and three pauses.
\<close>

theorem invite_retry:
  "joins (invite e s room) \<le> 3
   \<and> slept (invite e s room) \<le> 3
   \<and> final (invite e s room) = s
   \<and> (\<forall>k<3. (\<forall>n<k. client_join e room n \<noteq> JoinResponse)
              \<and> client_join e room k = JoinResponse \<longrightarrow>
         invite e s room
           = ret Joined s (concat (replicate k [Join room, Sleep 1]) @ [Join room])
         \<and> slept (invite e s room) = k
         \<and> joins (invite e s room) = k + 1)
   \<and> ((\<forall>n<3. client_join e room n \<noteq> JoinResponse) \<longrightarrow>
         invite e s room = ret GaveUp s (concat (replicate 3 [Join room, Sleep 1]))
         \<and> slept (invite e s room) = 3
         \<and> joins (invite e s room) = 3)"
proof -
  have bound: "joins (invite e s room) \<le> 3 \<and> slept (invite e s room) \<le> 3
      \<and> final (invite e s room) = s"
    by (simp add: invite_cases joins_def slept_def split: join_response.split)
  have ok: "invite e s room
           = ret Joined s (concat (replicate k [Join room, Sleep 1]) @ [Join room])
         \<and> slept (invite e s room) = k
         \<and> joins (invite e s room) = k + 1"
    if "k < 3" and "\<forall>n<k. client_join e room n \<noteq> JoinResponse"
      and "client_join e room k = JoinResponse" for k
  proof -
    from that(1) consider "k = 0" | "k = 1" | "k = 2" by linarith
    then show ?thesis
    proof cases
      case 1
      with that show ?thesis by (simp add: invite_cases joins_def slept_def)
    next
      case 2
      with that have "client_join e room 0 \<noteq> JoinResponse" by simp
      then obtain m where "client_join e room 0 = JoinError m"
        by (auto simp: not_response)
      with 2 that show ?thesis by (simp add: invite_cases joins_def slept_def)
    next
      case 3
      with that have "client_join e room 0 \<noteq> JoinResponse"
        and "client_join e room 1 \<noteq> JoinResponse" by simp_all
      then obtain m0 m1 where "client_join e room 0 = JoinError m0"
        and "client_join e room 1 = JoinError m1"
        by (auto simp: not_response)
      with 3 that show ?thesis
        by (simp add: invite_cases joins_def slept_def numeral_2_eq_2)
    qed
  qed
  have bad: "invite e s room = ret GaveUp s (concat (replicate 3 [Join room, Sleep 1]))
         \<and> slept (invite e s room) = 3
         \<and> joins (invite e s room) = 3"
    if "\<forall>n<3. client_join e room n \<noteq> JoinResponse"
  proof -
    from that have "client_join e room 0 \<noteq> JoinResponse"
      and "client_join e room 1 \<noteq> JoinResponse"
      and "client_join e room 2 \<noteq> JoinResponse" by simp_all
    then obtain m0 m1 m2 where "client_join e room 0 = JoinError m0"
      and "client_join e room 1 = JoinError m1"
      and "client_join e room 2 = JoinError m2"
      by (auto simp: not_response)
    then show ?thesis
      by (simp add: invite_cases joins_def slept_def numeral_3_eq_3)
  qed
  from bound ok bad show ?thesis by blast
qed

text \<open>Join fails twice and then succeeds: two pauses of one second, and the room is joined.\<close>

theorem invite_retry_witness:
  "invite env0 live room0
     = ret Joined live [Join room0, Sleep 1, Join room0, Sleep 1, Join room0]
   \<and> slept (invite env0 live room0) = 2
   \<and> joins (invite env0 live room0) = 3"
proof -
  have fails: "\<forall>n<2. client_join env0 room0 n \<noteq> JoinResponse"
    by (simp add: env0_def client_def)
  have succeeds: "client_join env0 room0 2 = JoinResponse"
    by (simp add: env0_def client_def)
  have "(2::nat) < 3" by simp
  with fails succeeds invite_retry [of env0 live room0]
  have "invite env0 live room0
           = ret Joined live (concat (replicate 2 [Join room0, Sleep 1]) @ [Join room0])
         \<and> slept (invite env0 live room0) = 2
         \<and> joins (invite env0 live room0) = 2 + 1"
    by blast
  then show ?thesis by (simp add: numeral_2_eq_2 slept_def joins_def)
qed

end
